theory Spec2Isabelle
  imports Main "HOL-Library.AList"
begin

section \<open>Values of the program\<close>

text \<open>
  The tracker of \<^verbatim>\<open>job_tracker.py\<close> works on Python strings and on the values that
  \<^verbatim>\<open>json.loads\<close> returns. A Python \<^verbatim>\<open>str\<close> is modelled by a \<^typ>\<open>string\<close>: a list of
  characters whose code points lie below 256, so \<^const>\<open>length\<close> counts characters as
  Python's \<^verbatim>\<open>len\<close> does. JSON numbers are modelled by integers. A Python \<^verbatim>\<open>dict\<close> keeps
  its keys in insertion order and is an association list.
\<close>

datatype json =
    JNull
  | JBool bool
  | JNum int
  | JStr string
  | JArr "json list"
  | JObj "(string \<times> json) list"

type_synonym job = "(string \<times> json) list"

definition dict_get :: "job \<Rightarrow> string \<Rightarrow> json option" where
  "dict_get d k = map_of d k"

definition get_default :: "job \<Rightarrow> string \<Rightarrow> json \<Rightarrow> json" where
  \<comment> \<open>\<^verbatim>\<open>d.get(k, default)\<close>\<close>
  "get_default d k dflt = (case map_of d k of None \<Rightarrow> dflt | Some v \<Rightarrow> v)"

fun dict_update :: "job \<Rightarrow> (string \<times> json) list \<Rightarrow> job" where
  \<comment> \<open>\<^verbatim>\<open>d.update({...})\<close>: an existing key keeps its place, a new key goes to the end\<close>
  "dict_update d [] = d"
| "dict_update d ((k, v) # kvs) = dict_update (AList.update k v d) kvs"

fun truthy :: "json \<Rightarrow> bool" where
  "truthy JNull = False"
| "truthy (JBool b) = b"
| "truthy (JNum n) = (n \<noteq> 0)"
| "truthy (JStr s) = (s \<noteq> [])"
| "truthy (JArr xs) = (xs \<noteq> [])"
| "truthy (JObj kvs) = (kvs \<noteq> [])"

subsection \<open>Characters and strings\<close>

definition code :: "char \<Rightarrow> int" where
  "code c = of_char c"

definition isspace :: "char \<Rightarrow> bool" where
  \<comment> \<open>the characters that \<^verbatim>\<open>str.strip\<close> removes and \<^verbatim>\<open>\s\<close> matches\<close>
  "isspace c =
     (let n = code c in (9 \<le> n \<and> n \<le> 13) \<or> (28 \<le> n \<and> n \<le> 32) \<or> n = 133 \<or> n = 160)"

definition isdigit :: "char \<Rightarrow> bool" where
  "isdigit c = (let n = code c in 48 \<le> n \<and> n \<le> 57)"

definition lower_chr :: "char \<Rightarrow> char" where
  "lower_chr c =
     (let n = code c
      in if (65 \<le> n \<and> n \<le> 90) \<or> (192 \<le> n \<and> n \<le> 222 \<and> n \<noteq> 215)
         then char_of (n + 32) else c)"

definition upper_chr :: "char \<Rightarrow> char" where
  "upper_chr c =
     (let n = code c
      in if (97 \<le> n \<and> n \<le> 122) \<or> (224 \<le> n \<and> n \<le> 254 \<and> n \<noteq> 247)
         then char_of (n - 32) else c)"

definition lower :: "string \<Rightarrow> string" where
  "lower s = map lower_chr s"

definition strip :: "string \<Rightarrow> string" where
  "strip s = rev (dropWhile isspace (rev (dropWhile isspace s)))"

definition startswith :: "string \<Rightarrow> string \<Rightarrow> bool" where
  "startswith s p = (take (length p) s = p)"

definition endswith :: "string \<Rightarrow> string \<Rightarrow> bool" where
  "endswith s p = (length p \<le> length s \<and> drop (length s - length p) s = p)"

fun find_chr :: "char \<Rightarrow> string \<Rightarrow> int" where
  \<comment> \<open>\<^verbatim>\<open>s.find(c)\<close>: the first index of \<open>c\<close>, or -1\<close>
  "find_chr c [] = -1"
| "find_chr c (x # xs) =
     (if x = c then 0 else (let i = find_chr c xs in if i < 0 then -1 else i + 1))"

fun rfind_chr :: "char \<Rightarrow> string \<Rightarrow> int" where
  \<comment> \<open>\<^verbatim>\<open>s.rfind(c)\<close>: the last index of \<open>c\<close>, or -1\<close>
  "rfind_chr c [] = -1"
| "rfind_chr c (x # xs) =
     (let i = rfind_chr c xs in if 0 \<le> i then i + 1 else if x = c then 0 else -1)"

definition slice :: "'a list \<Rightarrow> int \<Rightarrow> int \<Rightarrow> 'a list" where
  \<comment> \<open>\<^verbatim>\<open>s[a:b]\<close> for indices that are not negative\<close>
  "slice s a b = take (nat b - nat a) (drop (nat a) s)"

section \<open>Regular expressions\<close>

text \<open>
  The part of Python's \<^verbatim>\<open>re\<close> that the tracker's patterns use. The matcher is the
  backtracking one: \<open>rmatch\<close> lists the ways a pattern matches at a position in the order
  in which backtracking tries them, so the head of the list is the match Python reports. A
  position is the character before it (for \<^verbatim>\<open>^\<close>) and the text after it; group 1 is
  carried along.
\<close>

datatype flag = IGNORECASE | MULTILINE | DOTALL

datatype item = Ch char | Range char char | Space | Digit

datatype cset = In "item list" | NotIn "item list" | Dot

datatype regex =
    Lit string
  | Cls cset
  | Rep cset nat "nat option"
  | RepLazy cset nat "nat option"
  | Seq regex regex
  | Alt regex regex
  | Opt regex
  | Grp regex
  | Bol

fun in_item :: "item \<Rightarrow> char \<Rightarrow> bool" where
  "in_item (Ch a) c = (a = c)"
| "in_item (Range lo hi) c = (code lo \<le> code c \<and> code c \<le> code hi)"
| "in_item Space c = isspace c"
| "in_item Digit c = isdigit c"

fun charset :: "flag list \<Rightarrow> cset \<Rightarrow> char \<Rightarrow> bool" where
  "charset fl (In xs) c = list_ex (\<lambda>x. in_item x c) xs"
| "charset fl (NotIn xs) c = (\<not> list_ex (\<lambda>x. in_item x c) xs)"
| "charset fl Dot c = (List.member fl DOTALL \<or> c \<noteq> CHR 0x0A)"

definition cmatch :: "flag list \<Rightarrow> cset \<Rightarrow> char \<Rightarrow> bool" where
  \<comment> \<open>under IGNORECASE a class is tried on the lower-case and on the upper-case character\<close>
  "cmatch fl cs c =
     (if List.member fl IGNORECASE
      then charset fl cs (lower_chr c) \<or> charset fl cs (upper_chr (lower_chr c))
      else charset fl cs c)"

fun lit :: "flag list \<Rightarrow> string \<Rightarrow> char option \<Rightarrow> string \<Rightarrow> (char option \<times> string) option" where
  "lit fl [] p s = Some (p, s)"
| "lit fl (a # w) p [] = None"
| "lit fl (a # w) p (c # s) =
     (if (if List.member fl IGNORECASE then lower_chr a = lower_chr c else a = c)
      then lit fl w (Some c) s else None)"

fun runs :: "flag list \<Rightarrow> cset \<Rightarrow> nat option \<Rightarrow> char option \<Rightarrow> string
    \<Rightarrow> (char option \<times> string) list" where
  \<comment> \<open>the positions after 0, 1, 2, ... characters of the class, at most \<open>n\<close> of them\<close>
  "runs fl cs n p [] = [(p, [])]"
| "runs fl cs n p (c # s) =
     (p, c # s) #
     (if n \<noteq> Some 0 \<and> cmatch fl cs c
      then runs fl cs (map_option (\<lambda>k. k - 1) n) (Some c) s else [])"

type_synonym mstate = "string option \<times> char option \<times> string"

fun rmatch :: "flag list \<Rightarrow> regex \<Rightarrow> mstate \<Rightarrow> mstate list" where
  "rmatch fl (Lit w) (g, p, s) =
     (case lit fl w p s of None \<Rightarrow> [] | Some (p', s') \<Rightarrow> [(g, p', s')])"
| "rmatch fl (Cls cs) (g, p, s) =
     (case s of [] \<Rightarrow> [] | c # s' \<Rightarrow> if cmatch fl cs c then [(g, Some c, s')] else [])"
| "rmatch fl (Rep cs m n) (g, p, s) = map (Pair g) (rev (drop m (runs fl cs n p s)))"
| "rmatch fl (RepLazy cs m n) (g, p, s) = map (Pair g) (drop m (runs fl cs n p s))"
| "rmatch fl (Seq a b) st = concat (map (rmatch fl b) (rmatch fl a st))"
| "rmatch fl (Alt a b) st = rmatch fl a st @ rmatch fl b st"
| "rmatch fl (Opt a) st = rmatch fl a st @ [st]"
| "rmatch fl (Grp a) (g, p, s) =
     map (\<lambda>(g', p', s'). (Some (take (length s - length s') s), p', s'))
       (rmatch fl a (g, p, s))"
| "rmatch fl Bol (g, p, s) =
     (if p = None \<or> (List.member fl MULTILINE \<and> p = Some (CHR 0x0A)) then [(g, p, s)] else [])"

record match_obj =
  group0 :: string
  group1 :: "string option"

fun search_from :: "flag list \<Rightarrow> regex \<Rightarrow> char option \<Rightarrow> string \<Rightarrow> match_obj option" where
  "search_from fl r p [] =
     (case rmatch fl r (None, p, []) of
        [] \<Rightarrow> None
      | (g, _, _) # _ \<Rightarrow> Some \<lparr>group0 = [], group1 = g\<rparr>)"
| "search_from fl r p (c # s) =
     (case rmatch fl r (None, p, c # s) of
        [] \<Rightarrow> search_from fl r (Some c) s
      | (g, _, s') # _ \<Rightarrow>
          Some \<lparr>group0 = take (Suc (length s) - length s') (c # s), group1 = g\<rparr>)"

definition re_search :: "regex \<Rightarrow> string \<Rightarrow> flag list \<Rightarrow> match_obj option" where
  \<comment> \<open>\<^verbatim>\<open>re.search(pattern, string, flags)\<close>: the leftmost match\<close>
  "re_search r s fl = search_from fl r None s"

fun sub_from :: "flag list \<Rightarrow> regex \<Rightarrow> string \<Rightarrow> nat \<Rightarrow> char option \<Rightarrow> string \<Rightarrow> string" where
  \<comment> \<open>\<open>k\<close> characters of the last match are still to be skipped\<close>
  "sub_from fl r repl k p [] = (if k = 0 \<and> rmatch fl r (None, p, []) \<noteq> [] then repl else [])"
| "sub_from fl r repl (Suc k) p (c # s) = sub_from fl r repl k (Some c) s"
| "sub_from fl r repl 0 p (c # s) =
     (case rmatch fl r (None, p, c # s) of
        [] \<Rightarrow> c # sub_from fl r repl 0 (Some c) s
      | (_, _, s') # _ \<Rightarrow>
          if length s' \<le> length s
          then repl @ sub_from fl r repl (length s - length s') (Some c) s
          else repl @ c # sub_from fl r repl 0 (Some c) s)"

definition re_sub :: "regex \<Rightarrow> string \<Rightarrow> string \<Rightarrow> flag list \<Rightarrow> string" where
  \<comment> \<open>\<^verbatim>\<open>re.sub(pattern, repl, string, flags)\<close>; the patterns of this program match at least
      one character\<close>
  "re_sub r repl s fl = sub_from fl r repl 0 None s"

fun cat :: "regex list \<Rightarrow> regex" where
  "cat [] = Lit []"
| "cat [r] = r"
| "cat (r # rs) = Seq r (cat rs)"

fun alts :: "regex list \<Rightarrow> regex" where
  "alts [] = Cls (In [])"
| "alts [r] = r"
| "alts (r # rs) = Alt r (alts rs)"

abbreviation spaces0 :: regex where "spaces0 \<equiv> Rep (In [Space]) 0 None"
abbreviation spaces1 :: regex where "spaces1 \<equiv> Rep (In [Space]) 1 None"
abbreviation upper_letter :: item where "upper_letter \<equiv> Range (CHR ''A'') (CHR ''Z'')"
abbreviation lower_letter :: item where "lower_letter \<equiv> Range (CHR ''a'') (CHR ''z'')"
abbreviation newline :: char where "newline \<equiv> CHR 0x0A"

subsection \<open>Patterns whose matches set group 1\<close>

fun no_group :: "regex \<Rightarrow> bool" where
  "no_group (Grp a) = False"
| "no_group (Seq a b) = (no_group a \<and> no_group b)"
| "no_group (Alt a b) = (no_group a \<and> no_group b)"
| "no_group (Opt a) = no_group a"
| "no_group r = True"

fun sets_group :: "regex \<Rightarrow> bool" where
  \<comment> \<open>a sufficient condition for every match of the pattern to have a group 1\<close>
  "sets_group (Grp a) = True"
| "sets_group (Seq a b) = (sets_group b \<or> (sets_group a \<and> no_group b))"
| "sets_group (Alt a b) = (sets_group a \<and> sets_group b)"
| "sets_group r = False"

section \<open>The outside world\<close>

text \<open>
  What the tracker reads from outside is a parameter of the model: the answer of an HTTP
  request, the pages of a PDF, the text of a file, whether a path exists, the answers of
  the inference service, the result of \<^verbatim>\<open>json.loads\<close> and the date. The inference
  service is asked at most once for each attempt and model, so its answers are a function
  of the attempt, the model and the prompt.
\<close>

datatype 'a reply =
    ConnectionError
  | Timeout
  | OtherError
  | Response nat 'a

record env =
  http_get :: "string \<Rightarrow> string reply"
  pdf_pages :: "string \<Rightarrow> string list option"
  read_text :: "string \<Rightarrow> string option"
  path_exists :: "string \<Rightarrow> bool"
  post :: "nat \<Rightarrow> string \<Rightarrow> string \<Rightarrow> json option reply"
  loads :: "string \<Rightarrow> json option"
  today :: string

text \<open>
  \<open>http_get\<close>: \<^verbatim>\<open>requests.get(url, headers, timeout=10)\<close>, the status and the body text.
  \<open>pdf_pages\<close>: the text of each page, \<open>None\<close> when reading raises.
  \<open>read_text\<close>: the text of a file, \<open>None\<close> when opening or decoding raises.
  \<open>post\<close>: \<^verbatim>\<open>requests.post\<close> to the inference service, the status and the body as
  \<^verbatim>\<open>.json()\<close> reads it (\<open>None\<close> when that raises).
  \<open>loads\<close>: \<^verbatim>\<open>json.loads\<close>, \<open>None\<close> for JSONDecodeError.
  \<open>today\<close>: \<^verbatim>\<open>datetime.now().strftime('%m/%d/%Y')\<close>.
\<close>

record tracker =
  jobs :: "job list"
  disk :: "job list"

text \<open>\<open>jobs\<close> is \<^verbatim>\<open>self.jobs\<close>; \<open>disk\<close> is what \<^verbatim>\<open>jobs.json\<close> holds.\<close>

definition save_jobs :: "tracker \<Rightarrow> tracker" where
  "save_jobs st = st\<lparr>disk := jobs st\<rparr>"

datatype outcome =
    Added
  | ExtractionFailed
  | DuplicateJob
  | InsufficientContent
  | FetchError
  | EmptyContent
  | ExtractError
  | Raised

text \<open>
  The entry points return \<^verbatim>\<open>True\<close> or \<^verbatim>\<open>False\<close>; the outcome also says which
  \<^verbatim>\<open>return False\<close> was taken: \<open>ExtractionFailed\<close> ("Failed to extract job
  information"), \<open>DuplicateJob\<close> ("Similar job already exists!"), \<open>InsufficientContent\<close>
  ("Text content too short"), \<open>FetchError\<close> (\<^verbatim>\<open>extract_from_url\<close> returned \<^verbatim>\<open>None\<close>),
  \<open>EmptyContent\<close> (the acquired text is empty), \<open>ExtractError\<close> (the PDF or the text
  file could not be read). \<open>Raised\<close> is an exception that leaves the entry point.
\<close>

definition returns :: "outcome \<Rightarrow> bool" where
  "returns out = (out = Added)"

section \<open>Content acquisition\<close>

definition extract_from_pdf :: "env \<Rightarrow> string \<Rightarrow> string option" where
  "extract_from_pdf e pdf_path =
     (case pdf_pages e pdf_path of
        None \<Rightarrow> None
      | Some pages \<Rightarrow> Some (strip (concat (map (\<lambda>page. page @ [newline]) pages))))"

definition script_pattern :: regex where
  \<comment> \<open>\<^verbatim>\<open><script[^>]*>.*?</script>\<close>\<close>
  "script_pattern =
     cat [Lit ''<script'', Rep (NotIn [Ch (CHR ''>'')]) 0 None, Lit ''>'',
          RepLazy Dot 0 None, Lit ''</script>'']"

definition style_pattern :: regex where
  \<comment> \<open>\<^verbatim>\<open><style[^>]*>.*?</style>\<close>\<close>
  "style_pattern =
     cat [Lit ''<style'', Rep (NotIn [Ch (CHR ''>'')]) 0 None, Lit ''>'',
          RepLazy Dot 0 None, Lit ''</style>'']"

definition tag_pattern :: regex where
  \<comment> \<open>\<^verbatim>\<open><[^>]+>\<close>\<close>
  "tag_pattern = cat [Lit ''<'', Rep (NotIn [Ch (CHR ''>'')]) 1 None, Lit ''>'']"

definition clean_html :: "string \<Rightarrow> string" where
  "clean_html html_content =
     (let h1 = re_sub script_pattern [] html_content [DOTALL, IGNORECASE];
          h2 = re_sub style_pattern [] h1 [DOTALL, IGNORECASE];
          t1 = re_sub tag_pattern '' '' h2 []
      in strip (re_sub spaces1 '' '' t1 []))"

definition extract_from_url :: "env \<Rightarrow> string \<Rightarrow> string option" where
  \<comment> \<open>the status of the response is not looked at\<close>
  "extract_from_url e url =
     (case http_get e url of
        Response status text \<Rightarrow> Some (clean_html text)
      | _ \<Rightarrow> None)"

section \<open>The heuristic extractor\<close>

definition title_patterns :: "regex list" where
  "title_patterns =
    [cat [alts [cat [Lit ''job'', spaces1, Lit ''title''], Lit ''position'', Lit ''role''],
          Rep (In [Space, Ch (CHR '':'')]) 1 None,
          Grp (Rep (NotIn [Ch newline]) 10 (Some 100))],
     cat [alts [Bol, Lit [newline]],
          Grp (cat [Cls (In [upper_letter]),
                    Rep (NotIn [Ch (CHR ''.''), Ch newline]) 10 (Some 80),
                    alts [Lit ''engineer'', Lit ''developer'', Lit ''manager'', Lit ''analyst'',
                          Lit ''specialist'', Lit ''coordinator'']])],
     cat [alts [Bol, Lit [newline]],
          Grp (cat [Cls (In [upper_letter]),
                    Rep (NotIn [Ch (CHR ''.''), Ch newline]) 10 (Some 80),
                    alts [Lit ''intern'', Lit ''associate'', Lit ''director'', Lit ''lead'']])]]"

abbreviation name_chars :: cset where
  \<comment> \<open>\<^verbatim>\<open>[a-zA-Z\s&.,]\<close>\<close>
  "name_chars \<equiv> In [lower_letter, upper_letter, Space, Ch (CHR ''&''), Ch (CHR ''.''), Ch (CHR '','')]"

definition company_patterns :: "regex list" where
  "company_patterns =
    [cat [alts [Lit ''company'', Lit ''employer'', Lit ''organization''],
          Rep (In [Space, Ch (CHR '':'')]) 1 None,
          Grp (Rep (NotIn [Ch newline]) 2 (Some 50))],
     cat [alts [Lit ''at'', Lit ''@''], spaces1,
          Grp (cat [Cls (In [upper_letter]), Rep name_chars 2 (Some 40)])],
     cat [Grp (cat [Cls (In [upper_letter]), Rep name_chars 2 (Some 40)]),
          cat [spaces1, Lit ''is'', spaces1, alts [Lit ''hiring'', Lit ''looking'', Lit ''seeking'']]]]"

abbreviation amount :: regex where
  \<comment> \<open>\<^verbatim>\<open>[\d,]+\<close>\<close>
  "amount \<equiv> Rep (In [Digit, Ch (CHR '','')]) 1 None"

definition salary_patterns :: "regex list" where
  "salary_patterns =
    [cat [Lit ''$'', amount,
          Opt (cat [spaces0, Lit ''-'', spaces0, Lit ''$'', amount]),
          Opt (cat [spaces0, alts [Lit ''per'', Lit ''/''], spaces0,
                    alts [Lit ''year'', Lit ''hour'', Lit ''yr'', Lit ''hr'', Lit ''annum'']])],
     cat [amount, Opt (Lit ''k''),
          Opt (cat [spaces0, Lit ''-'', spaces0, amount, Opt (Lit ''k'')]),
          spaces0,
          alts [cat [Lit ''per'', spaces1, Lit ''year''], Lit ''annually'', Lit ''/year'']]]"

definition location_patterns :: "regex list" where
  "location_patterns =
    [cat [alts [Lit ''location'', Lit ''based in'', Lit ''located in''],
          Rep (In [Space, Ch (CHR '':'')]) 1 None,
          Grp (Rep (NotIn [Ch newline]) 5 (Some 50))],
     Grp (cat [Cls (In [upper_letter]), Rep (In [lower_letter]) 1 None, Lit '','', spaces0,
               Rep (In [upper_letter]) 2 (Some 2),
               Opt (cat [spaces1, Rep (In [Digit]) 5 (Some 5)])]),
     Grp (cat [Cls (In [upper_letter]), Rep (In [lower_letter]) 1 None, Lit '','', spaces0,
               Cls (In [upper_letter]), Rep (In [lower_letter]) 1 None])]"

abbreviation separator :: regex where
  \<comment> \<open>\<^verbatim>\<open>[_\s-]?\<close>\<close>
  "separator \<equiv> Rep (In [Ch (CHR ''_''), Space, Ch (CHR ''-'')]) 0 (Some 1)"

definition job_type_pattern :: regex where
  "job_type_pattern =
     Grp (alts [cat [Lit ''full'', separator, Lit ''time''],
                cat [Lit ''part'', separator, Lit ''time''],
                Lit ''contract'', Lit ''temporary'', Lit ''intern''])"

fun scan_patterns :: "regex list \<Rightarrow> flag list \<Rightarrow> nat \<Rightarrow> nat \<Rightarrow> string \<Rightarrow> string option option" where
  \<comment> \<open>the loop over the patterns of a field that ends at the first match of a fitting length:
      \<open>Some (Some v)\<close> is the value found, \<open>Some None\<close> none, and \<open>None\<close> is the exception of
      \<^verbatim>\<open>match.group(1).strip()\<close> on a group that did not take part\<close>
  "scan_patterns [] fl lo hi content = Some None"
| "scan_patterns (pattern # patterns) fl lo hi content =
     (case re_search pattern content fl of
        None \<Rightarrow> scan_patterns patterns fl lo hi content
      | Some m \<Rightarrow>
          (case group1 m of
             None \<Rightarrow> None
           | Some g \<Rightarrow>
               (let potential = strip g
                in if lo < length potential \<and> length potential < hi then Some (Some potential)
                   else scan_patterns patterns fl lo hi content)))"

fun scan_salary :: "regex list \<Rightarrow> string \<Rightarrow> string option" where
  "scan_salary [] content = None"
| "scan_salary (pattern # patterns) content =
     (case re_search pattern content [IGNORECASE] of
        None \<Rightarrow> scan_salary patterns content
      | Some m \<Rightarrow> Some (group0 m))"

definition describe :: "string \<Rightarrow> string" where
  "describe content =
     (let description = (if length content > 500 then take 500 content @ ''...'' else content)
      in if strip description = [] then ''No description found'' else description)"

definition opt_entry :: "string \<Rightarrow> string option \<Rightarrow> (string \<times> json) list" where
  "opt_entry k v = (case v of None \<Rightarrow> [] | Some s \<Rightarrow> [(k, JStr s)])"

definition job_type_entry :: "string \<Rightarrow> (string \<times> json) list" where
  "job_type_entry content =
     (case re_search job_type_pattern content [IGNORECASE] of
        None \<Rightarrow> []
      | Some m \<Rightarrow> [(''job_type'', (case group1 m of None \<Rightarrow> JNull | Some g \<Rightarrow> JStr g))])"

definition fallback_try :: "string \<Rightarrow> job option" where
  \<comment> \<open>the body of the \<^verbatim>\<open>try\<close>; \<open>None\<close> when it raises\<close>
  "fallback_try content =
     (case scan_patterns title_patterns [IGNORECASE, MULTILINE] 5 200 content of
        None \<Rightarrow> None
      | Some title \<Rightarrow>
     (case scan_patterns company_patterns [IGNORECASE] 1 100 content of
        None \<Rightarrow> None
      | Some company \<Rightarrow>
     (case scan_patterns location_patterns [IGNORECASE] 2 100 content of
        None \<Rightarrow> None
      | Some location \<Rightarrow>
          Some [(''title'', JStr (case title of None \<Rightarrow> ''Unknown Title'' | Some t \<Rightarrow> t)),
                (''company'', JStr (case company of None \<Rightarrow> ''Unknown Company'' | Some c \<Rightarrow> c)),
                (''description'', JStr (describe content)),
                (''other_info'',
                   JObj (opt_entry ''salary'' (scan_salary salary_patterns content) @
                         opt_entry ''location'' location @
                         job_type_entry content))])))"

definition fallback_extraction :: "string \<Rightarrow> string \<Rightarrow> job" where
  "fallback_extraction content source =
     (case fallback_try content of
        Some draft \<Rightarrow> draft
      | None \<Rightarrow>
          [(''title'', JStr ''Unknown Title''),
           (''company'', JStr ''Unknown Company''),
           (''description'', JStr ''No description found''),
           (''other_info'', JObj [])])"

section \<open>The LLM extraction client\<close>

definition prompt_template :: string where
  \<open>prompt_template =
     ''Extract job information from this content. Return ONLY a valid JSON object:\<newline>'' @
     ''{\<newline>'' @
     ''  "title": "job title here",\<newline>'' @
     ''  "company": "company name here", \<newline>'' @
     ''  "description": "brief description (max 400 chars)",\<newline>'' @
     ''  "location": "location if found",\<newline>'' @
     ''  "salary": "salary if found",\<newline>'' @
     ''  "requirements": "key requirements if found",\<newline>'' @
     ''  "job_type": "full-time/part-time/contract if found"\<newline>'' @
     ''}\<newline>'' @
     ''\<newline>'' @
     ''Content:\<newline>''\<close>

definition make_prompt :: "string \<Rightarrow> string" where
  "make_prompt content = prompt_template @ take 4000 content"

definition models :: "string list" where
  "models = [''phi3:mini'', ''llama3.2'', ''llama3.1'', ''llama3'', ''llama2'']"

definition max_retries :: nat where
  "max_retries = 2"

definition optional_fields :: "string list" where
  "optional_fields = [''location'', ''salary'', ''requirements'', ''job_type'']"

fun truncate500 :: "json \<Rightarrow> json option" where
  \<comment> \<open>\<^verbatim>\<open>value[:500]\<close>; \<open>None\<close> is the TypeError of a value that has no slices\<close>
  "truncate500 (JStr s) = Some (JStr (take 500 s))"
| "truncate500 (JArr xs) = Some (JArr (take 500 xs))"
| "truncate500 v = None"

definition format_data :: "json \<Rightarrow> job option" where
  \<comment> \<open>the formatting of the parsed data; \<open>None\<close> when it raises\<close>
  "format_data job_data =
     (case job_data of
        JObj d \<Rightarrow>
          (case truncate500 (get_default d ''description'' (JStr ''No description found'')) of
             None \<Rightarrow> None
           | Some description \<Rightarrow>
               Some [(''title'', get_default d ''title'' (JStr ''Unknown Title'')),
                     (''company'', get_default d ''company'' (JStr ''Unknown Company'')),
                     (''description'', description),
                     (''other_info'',
                        JObj (map (\<lambda>field. (field, get_default d field JNull))
                               (filter (\<lambda>field. truthy (get_default d field JNull))
                                  optional_fields)))])
      | _ \<Rightarrow> None)"

definition parse_ollama_response :: "(string \<Rightarrow> json option) \<Rightarrow> string \<Rightarrow> job option" where
  "parse_ollama_response json_loads response_text =
     (let json_start = find_chr (CHR ''{'') response_text;
          json_end = rfind_chr (CHR ''}'') response_text + 1
      in if json_start \<ge> 0 \<and> json_end > json_start
         then (case json_loads (slice response_text json_start json_end) of
                 None \<Rightarrow> None
               | Some job_data \<Rightarrow> format_data job_data)
         else None)"

definition call_model :: "env \<Rightarrow> nat \<Rightarrow> string \<Rightarrow> string \<Rightarrow> job option" where
  \<comment> \<open>the body of the loop over the models: \<open>Some\<close> is the \<^verbatim>\<open>return job_data\<close>, \<open>None\<close>
      goes on to the next model\<close>
  "call_model e attempt prompt model =
     (case post e attempt model prompt of
        Response status body \<Rightarrow>
          if status = 200
          then (case body of
                  Some (JObj result) \<Rightarrow>
                    (case get_default result ''response'' (JStr []) of
                       JStr text \<Rightarrow>
                         (case parse_ollama_response (loads e) (strip text) of
                            None \<Rightarrow> None
                          | Some job_data \<Rightarrow> if job_data \<noteq> [] then Some job_data else None)
                     | _ \<Rightarrow> None)
                | _ \<Rightarrow> None)
          else None
      | _ \<Rightarrow> None)"

type_synonym call_log = "(nat \<times> string) list"

fun try_models :: "env \<Rightarrow> nat \<Rightarrow> string \<Rightarrow> string list \<Rightarrow> job option \<times> call_log" where
  "try_models e attempt prompt [] = (None, [])"
| "try_models e attempt prompt (model # rest) =
     (case call_model e attempt prompt model of
        Some job_data \<Rightarrow> (Some job_data, [(attempt, model)])
      | None \<Rightarrow>
          (let (r, log) = try_models e attempt prompt rest in (r, (attempt, model) # log)))"

fun try_attempts :: "env \<Rightarrow> string \<Rightarrow> nat list \<Rightarrow> job option \<times> call_log" where
  "try_attempts e content [] = (None, [])"
| "try_attempts e content (attempt # rest) =
     (case try_models e attempt (make_prompt content) models of
        (Some job_data, log) \<Rightarrow> (Some job_data, log)
      | (None, log) \<Rightarrow> (let (r, log') = try_attempts e content rest in (r, log @ log')))"

definition try_ollama_extraction :: "env \<Rightarrow> string \<Rightarrow> job option \<times> call_log" where
  \<comment> \<open>the result, and the calls made to the inference service in the order they were made;
      the waits between the attempts are left out\<close>
  "try_ollama_extraction e content = try_attempts e content [0..<max_retries]"

section \<open>The orchestrator\<close>

definition extract_with_ollama :: "env \<Rightarrow> string \<Rightarrow> string \<Rightarrow> string \<Rightarrow> job" where
  "extract_with_ollama e content source_type source =
     (case fst (try_ollama_extraction e content) of
        Some ollama_result \<Rightarrow>
          if ollama_result \<noteq> [] then ollama_result else fallback_extraction content source
      | None \<Rightarrow> fallback_extraction content source)"

definition provenance :: "env \<Rightarrow> string \<Rightarrow> string \<Rightarrow> (string \<times> json) list" where
  "provenance e source_type source =
     [(''source'', JStr source),
      (''source_type'', JStr source_type),
      (''date_added'', JStr (today e)),
      (''status'', JStr ''Applied''),
      (''last_update'', JStr (today e))]"

definition extract_job_info_from_content :: "env \<Rightarrow> string \<Rightarrow> string \<Rightarrow> string \<Rightarrow> job option" where
  "extract_job_info_from_content e content source_type source =
     (let content = (if length content > 8000 then take 8000 content else content);
          job_info = extract_with_ollama e content source_type source
      in if job_info \<noteq> [] then Some (dict_update job_info (provenance e source_type source))
         else None)"

section \<open>The deduplicator and the store\<close>

fun py_lower :: "json \<Rightarrow> string option" where
  \<comment> \<open>\<^verbatim>\<open>value.lower()\<close>; \<open>None\<close> is the AttributeError of a value that is no string\<close>
  "py_lower (JStr s) = Some (lower s)"
| "py_lower v = None"

fun is_duplicate :: "job list \<Rightarrow> job \<Rightarrow> bool option" where
  \<comment> \<open>the loop over the stored jobs; \<open>None\<close> when a comparison raises\<close>
  "is_duplicate [] job_info = Some False"
| "is_duplicate (existing_job # rest) job_info =
     (case py_lower (get_default existing_job ''title'' (JStr [])) of
        None \<Rightarrow> None
      | Some et \<Rightarrow>
     (case py_lower (get_default job_info ''title'' (JStr [])) of
        None \<Rightarrow> None
      | Some jt \<Rightarrow>
          if et \<noteq> jt then is_duplicate rest job_info
          else
     (case py_lower (get_default existing_job ''company'' (JStr [])) of
        None \<Rightarrow> None
      | Some ec \<Rightarrow>
     (case py_lower (get_default job_info ''company'' (JStr [])) of
        None \<Rightarrow> None
      | Some jc \<Rightarrow> if ec = jc then Some True else is_duplicate rest job_info))))"

definition save_job_info :: "tracker \<Rightarrow> job option \<Rightarrow> outcome \<times> tracker" where
  "save_job_info st job_info =
     (case job_info of
        None \<Rightarrow> (ExtractionFailed, st)
      | Some info \<Rightarrow>
          if info = [] then (ExtractionFailed, st)
          else (case is_duplicate (jobs st) info of
                  None \<Rightarrow> (Raised, st)
                | Some True \<Rightarrow> (DuplicateJob, st)
                | Some False \<Rightarrow>
                    (let st' = save_jobs (st\<lparr>jobs := jobs st @ [info]\<rparr>)
                     in if dict_get info ''title'' = None \<or> dict_get info ''company'' = None
                        then (Raised, st') else (Added, st'))))"

section \<open>The entry points\<close>

definition add_job_from_url :: "env \<Rightarrow> tracker \<Rightarrow> string \<Rightarrow> outcome \<times> tracker" where
  "add_job_from_url e st url =
     (case extract_from_url e url of
        None \<Rightarrow> (FetchError, st)
      | Some content \<Rightarrow>
          if content = [] then (EmptyContent, st)
          else save_job_info st (extract_job_info_from_content e content ''url'' url))"

definition add_job_from_pdf :: "env \<Rightarrow> tracker \<Rightarrow> string \<Rightarrow> outcome \<times> tracker" where
  "add_job_from_pdf e st pdf_path =
     (case extract_from_pdf e pdf_path of
        None \<Rightarrow> (ExtractError, st)
      | Some content \<Rightarrow>
          if content = [] then (EmptyContent, st)
          else save_job_info st (extract_job_info_from_content e content ''pdf'' pdf_path))"

definition add_job_from_text_file :: "env \<Rightarrow> tracker \<Rightarrow> string \<Rightarrow> outcome \<times> tracker" where
  \<comment> \<open>the \<^verbatim>\<open>try\<close> is around the whole body, so an exception of \<^verbatim>\<open>save_job_info\<close> ends in
      \<^verbatim>\<open>return False\<close> too\<close>
  "add_job_from_text_file e st text_path =
     (case read_text e text_path of
        None \<Rightarrow> (ExtractError, st)
      | Some content \<Rightarrow>
          (case save_job_info st (extract_job_info_from_content e content ''text_file'' text_path) of
             (Raised, st') \<Rightarrow> (ExtractError, st')
           | r \<Rightarrow> r))"

definition add_job_from_text :: "env \<Rightarrow> tracker \<Rightarrow> string \<Rightarrow> outcome \<times> tracker" where
  "add_job_from_text e st text_content =
     (if length text_content < 50 then (InsufficientContent, st)
      else save_job_info st (extract_job_info_from_content e text_content ''text'' ''Direct Input''))"

definition add_job_from_input :: "env \<Rightarrow> tracker \<Rightarrow> string \<Rightarrow> outcome \<times> tracker" where
  "add_job_from_input e st user_input =
     (let user_input = strip user_input
      in if startswith user_input ''http'' then add_job_from_url e st user_input
         else if endswith user_input ''.pdf'' \<and> path_exists e user_input
           then add_job_from_pdf e st user_input
         else if endswith user_input ''.txt'' \<and> path_exists e user_input
           then add_job_from_text_file e st user_input
         else add_job_from_text e st user_input)"

section \<open>Example inputs\<close>

definition offline :: env where
  \<comment> \<open>nothing outside can be reached: every request fails, no file exists\<close>
  "offline =
     \<lparr>http_get = (\<lambda>url. ConnectionError), pdf_pages = (\<lambda>path. None),
      read_text = (\<lambda>path. None), path_exists = (\<lambda>path. False),
      post = (\<lambda>attempt model prompt. ConnectionError), loads = (\<lambda>s. None),
      today = ''01/15/2025''\<rparr>"

definition empty_tracker :: tracker where
  "empty_tracker = \<lparr>jobs = [], disk = []\<rparr>"

definition example1 :: string where
  \<comment> \<open>the posting of the specification's first example\<close>
  "example1 =
     ''Job Title: Backend Engineer\<newline>Company: Acme Corp\<newline>'' @
     ''We are looking for a backend engineer to join our team in Austin, TX. '' @
     ''Salary: $120,000 - $150,000 per year. Full-time position.''"

definition identity_key :: "job \<Rightarrow> (string \<times> string) option" where
  \<comment> \<open>the pair that \<open>is_duplicate\<close> compares: lower-case title and lower-case company, each
      the empty string when the key is absent; \<open>None\<close> when one of them is no string\<close>
  "identity_key j =
     (case (py_lower (get_default j ''title'' (JStr [])),
            py_lower (get_default j ''company'' (JStr []))) of
        (Some t, Some c) \<Rightarrow> Some (t, c)
      | _ \<Rightarrow> None)"

definition backend_upper :: job where
  "backend_upper = [(''title'', JStr ''Backend Engineer''), (''company'', JStr ''Acme Corp'')]"

definition backend_lower :: job where
  "backend_lower = [(''title'', JStr ''backend engineer''), (''company'', JStr ''Acme Corp'')]"

definition call_order :: call_log where
  \<comment> \<open>the fixed order of the calls: the attempts one after the other, in each attempt the
      models in their order of preference\<close>
  "call_order = concat (map (\<lambda>attempt. map (Pair attempt) models) [0..<max_retries])"

fun first_success :: "(nat \<times> string \<Rightarrow> job option) \<Rightarrow> call_log \<Rightarrow> job option \<times> call_log" where
  \<comment> \<open>a scan of a list of calls that stops at the first call with a result\<close>
  "first_success f [] = (None, [])"
| "first_success f (x # xs) =
     (case f x of
        Some d \<Rightarrow> (Some d, [x])
      | None \<Rightarrow> (let (r, log) = first_success f xs in (r, x # log)))"


definition null_description :: env where
  \<comment> \<open>every model answers with a JSON object whose description is \<^verbatim>\<open>null\<close>\<close>
  \<open>null_description =
     offline
       \<lparr>post := (\<lambda>attempt model prompt.
            Response 200 (Some (JObj [(''response'', JStr ''{"title": "Nurse", "description": null}'')]))),
        loads := (\<lambda>s.
            if s = ''{"title": "Nurse", "description": null}''
            then Some (JObj [(''title'', JStr ''Nurse''), (''description'', JNull)])
            else None)\<rparr>\<close>

definition not_found :: env where
  \<comment> \<open>the web server answers every request with status 404 and an error page\<close>
  "not_found =
     offline
       \<lparr>http_get := (\<lambda>url. Response 404
          (''<html><head><title>404 Not Found</title></head>'' @
           ''<body><h1>Not Found</h1><p>The requested URL was not found.</p></body></html>''))\<rparr>"

definition empty_page :: env where
  \<comment> \<open>the web server answers with a page that has no text\<close>
  "empty_page = offline\<lparr>http_get := (\<lambda>url. Response 200 ''<html><body></body></html>'')\<rparr>"

definition analyst :: job where
  \<comment> \<open>a record that is already stored\<close>
  "analyst =
     [(''title'', JStr ''Data Analyst''), (''company'', JStr ''Initech''),
      (''description'', JStr ''Reporting and dashboards.''), (''other_info'', JObj []),
      (''source'', JStr ''Direct Input''), (''source_type'', JStr ''text''),
      (''date_added'', JStr ''01/10/2025''), (''status'', JStr ''Applied''),
      (''last_update'', JStr ''01/10/2025'')]"

definition analyst_tracker :: tracker where
  "analyst_tracker = \<lparr>jobs = [analyst], disk = [analyst]\<rparr>"

definition null_title :: env where
  \<comment> \<open>every model answers with a JSON object whose title is \<^verbatim>\<open>null\<close>\<close>
  \<open>null_title =
     offline
       \<lparr>post := (\<lambda>attempt model prompt.
            Response 200 (Some (JObj [(''response'', JStr ''{"title": null, "company": "Acme Corp"}'')]))),
        loads := (\<lambda>s.
            if s = ''{"title": null, "company": "Acme Corp"}''
            then Some (JObj [(''title'', JNull), (''company'', JStr ''Acme Corp'')])
            else None)\<rparr>\<close>

definition blank_title :: env where
  \<comment> \<open>every model answers with a JSON object whose title is the empty string\<close>
  \<open>blank_title =
     offline
       \<lparr>post := (\<lambda>attempt model prompt.
            Response 200 (Some (JObj [(''response'', JStr ''{"title": "", "company": "Acme Corp"}'')]))),
        loads := (\<lambda>s.
            if s = ''{"title": "", "company": "Acme Corp"}''
            then Some (JObj [(''title'', JStr []), (''company'', JStr ''Acme Corp'')])
            else None)\<rparr>\<close>

definition long_posting :: string where
  \<comment> \<open>8000 characters of filling, then the line that names the company\<close>
  "long_posting = replicate 8000 (CHR ''#'') @ ''Company: Acme Corp''"

definition backend_record :: job where
  \<comment> \<open>the record of the first example when the inference service cannot be reached\<close>
  "backend_record =
     [(''title'', JStr ''Backend Engineer''),
      (''company'', JStr ''Acme Corp''),
      (''description'', JStr example1),
      (''other_info'',
         JObj [(''salary'', JStr ''$120,000 - $150,000 per year''),
               (''location'', JStr ''Austin, TX''),
               (''job_type'', JStr ''Full-time'')]),
      (''source'', JStr ''Direct Input''),
      (''source_type'', JStr ''text''),
      (''date_added'', JStr ''01/15/2025''),
      (''status'', JStr ''Applied''),
      (''last_update'', JStr ''01/15/2025'')]"

definition job_url :: string where
  "job_url = ''http://example.com/jobs/1''"

definition with_provenance :: "job \<Rightarrow> string \<Rightarrow> string \<Rightarrow> job" where
  \<comment> \<open>a draft with the provenance that the examples get: their source, and the date of the
      example environments\<close>
  "with_provenance draft source_type source =
     draft @
     [(''source'', JStr source),
      (''source_type'', JStr source_type),
      (''date_added'', JStr ''01/15/2025''),
      (''status'', JStr ''Applied''),
      (''last_update'', JStr ''01/15/2025'')]"

definition not_found_record :: job where
  "not_found_record =
     with_provenance
       [(''title'', JStr ''Unknown Title''),
        (''company'', JStr ''Unknown Company''),
        (''description'', JStr ''404 Not Found Not Found The requested URL was not found.''),
        (''other_info'', JObj [])]
       ''url'' job_url"

definition null_title_record :: job where
  "null_title_record =
     with_provenance
       [(''title'', JNull),
        (''company'', JStr ''Acme Corp''),
        (''description'', JStr ''No description found''),
        (''other_info'', JObj [])]
       ''text'' ''Direct Input''"

definition blank_title_record :: job where
  "blank_title_record =
     with_provenance
       [(''title'', JStr []),
        (''company'', JStr ''Acme Corp''),
        (''description'', JStr ''No description found''),
        (''other_info'', JObj [])]
       ''text'' ''Direct Input''"

definition short_page :: env where
  \<comment> \<open>the web server answers with a page of ten characters of text\<close>
  "short_page = offline\<lparr>http_get := (\<lambda>url. Response 200 ''<p>Hiring   now</p>'')\<rparr>"

definition short_page_record :: job where
  "short_page_record =
     with_provenance
       [(''title'', JStr ''Unknown Title''),
        (''company'', JStr ''Unknown Company''),
        (''description'', JStr ''Hiring now''),
        (''other_info'', JObj [])]
       ''url'' job_url"

definition empty_content_record :: job where
  \<comment> \<open>what extraction makes of an empty text\<close>
  "empty_content_record =
     with_provenance
       [(''title'', JStr ''Unknown Title''),
        (''company'', JStr ''Unknown Company''),
        (''description'', JStr ''No description found''),
        (''other_info'', JObj [])]
       ''url'' job_url"

definition other_info_get :: "job \<Rightarrow> string \<Rightarrow> json option" where
  \<comment> \<open>\<^verbatim>\<open>draft['other_info'].get(k)\<close>\<close>
  "other_info_get draft k =
     (case dict_get draft ''other_info'' of Some (JObj other_info) \<Rightarrow> dict_get other_info k | _ \<Rightarrow> None)"

section \<open>Properties\<close>

subsection \<open>Short literal text\<close>

text \<open>
  C7. A literal text of fewer than 50 characters is rejected by \<open>add_job_from_text\<close> with
  the outcome \<open>InsufficientContent\<close>: the function returns (it does not raise), no record
  is extracted and the tracker, in memory and on disk, is what it was.
\<close>

theorem short_text_rejected:
  "length text_content < 50 \<Longrightarrow>
     add_job_from_text e st text_content = (InsufficientContent, st)"
  by (simp add: add_job_from_text_def)

theorem short_text_rejected_witness:
  "length ''Backend Engineer at Acme Corp.'' < 50 \<and>
   add_job_from_text offline empty_tracker ''Backend Engineer at Acme Corp.''
     = (InsufficientContent, empty_tracker)"
  using short_text_rejected [of "''Backend Engineer at Acme Corp.''" offline empty_tracker]
  by simp

subsection \<open>What extraction returns\<close>

lemma dict_get_update: "dict_get d k \<noteq> None \<Longrightarrow> dict_get (dict_update d kvs) k \<noteq> None"
  by (induction d kvs rule: dict_update.induct) (auto simp: dict_get_def update_conv')

lemma format_data_keys:
  "format_data v = Some d \<Longrightarrow> dict_get d ''title'' \<noteq> None \<and> dict_get d ''company'' \<noteq> None"
  by (auto simp: format_data_def dict_get_def split: json.splits option.splits)

lemma parse_keys:
  "parse_ollama_response l t = Some d \<Longrightarrow>
     dict_get d ''title'' \<noteq> None \<and> dict_get d ''company'' \<noteq> None"
  by (auto simp: parse_ollama_response_def Let_def dest: format_data_keys
        split: if_splits option.splits)

lemma call_model_parse:
  "call_model e a p m = Some d \<Longrightarrow> \<exists>t. parse_ollama_response (loads e) t = Some d"
  by (auto simp: call_model_def split: reply.splits if_splits option.splits json.splits)

lemma try_models_Some:
  "try_models e a p ms = (Some d, log) \<Longrightarrow> \<exists>m \<in> set ms. call_model e a p m = Some d"
  by (induction ms arbitrary: log) (auto split: option.splits prod.splits)

lemma try_attempts_Some:
  "try_attempts e c as = (Some d, log) \<Longrightarrow> \<exists>a m. call_model e a (make_prompt c) m = Some d"
proof (induction as arbitrary: log)
  case Nil
  then show ?case by simp
next
  case (Cons a as)
  show ?case
  proof (cases "try_models e a (make_prompt c) models")
    case (Pair r l)
    show ?thesis
    proof (cases r)
      case None
      with Pair Cons.prems obtain l' where "try_attempts e c as = (Some d, l')"
        by (auto split: prod.splits)
      then show ?thesis using Cons.IH by blast
    next
      case (Some d')
      with Pair Cons.prems have "d' = d" by simp
      with Pair Some show ?thesis using try_models_Some by blast
    qed
  qed
qed

lemma fallback_keys:
  "dict_get (fallback_extraction c s) ''title'' \<noteq> None \<and>
   dict_get (fallback_extraction c s) ''company'' \<noteq> None"
  by (auto simp: fallback_extraction_def fallback_try_def dict_get_def split: option.splits)

lemma extract_with_ollama_keys:
  "dict_get (extract_with_ollama e c t s) ''title'' \<noteq> None \<and>
   dict_get (extract_with_ollama e c t s) ''company'' \<noteq> None"
proof (cases "try_ollama_extraction e c")
  case (Pair r l)
  show ?thesis
  proof (cases r)
    case None
    with Pair show ?thesis by (simp add: extract_with_ollama_def fallback_keys)
  next
    case (Some d)
    with Pair obtain a m where "call_model e a (make_prompt c) m = Some d"
      using try_attempts_Some unfolding try_ollama_extraction_def by blast
    then have "dict_get d ''title'' \<noteq> None \<and> dict_get d ''company'' \<noteq> None"
      using call_model_parse parse_keys by blast
    with Pair Some show ?thesis
      using fallback_keys [of c s] by (simp add: extract_with_ollama_def)
  qed
qed

lemma extract_job_info_keys:
  "extract_job_info_from_content e c t s = Some info \<Longrightarrow>
     info \<noteq> [] \<and> dict_get info ''title'' \<noteq> None \<and> dict_get info ''company'' \<noteq> None"
proof -
  assume a: "extract_job_info_from_content e c t s = Some info"
  define c' where "c' = (if length c > 8000 then take 8000 c else c)"
  from a have info: "info = dict_update (extract_with_ollama e c' t s) (provenance e t s)"
    unfolding extract_job_info_from_content_def Let_def c'_def by (simp split: if_splits)
  have k: "dict_get info ''title'' \<noteq> None \<and> dict_get info ''company'' \<noteq> None"
    unfolding info using extract_with_ollama_keys [of e c' t s] dict_get_update by blast
  then have "info \<noteq> []" by (auto simp: dict_get_def)
  with k show ?thesis by simp
qed

subsection \<open>The first example\<close>

lemma example1_fallback:
  "fallback_extraction example1 src =
     [(''title'', JStr ''Backend Engineer''),
      (''company'', JStr ''Acme Corp''),
      (''description'', JStr example1),
      (''other_info'',
         JObj [(''salary'', JStr ''$120,000 - $150,000 per year''),
               (''location'', JStr ''Austin, TX''),
               (''job_type'', JStr ''Full-time'')])]"
  by code_simp

lemma example1_length: "length example1 = 174"
  by (simp add: example1_def)

subsection \<open>The store changes by one record at the end, or not at all\<close>

lemma save_job_info_cases:
  "save_job_info st ji = (out, st') \<Longrightarrow>
     (out = Added \<and>
        (\<exists>info. ji = Some info \<and> info \<noteq> [] \<and> is_duplicate (jobs st) info = Some False \<and>
           st' = \<lparr>jobs = jobs st @ [info], disk = jobs st @ [info]\<rparr>)) \<or>
     (out \<in> {ExtractionFailed, DuplicateJob} \<and> st' = st) \<or>
     (out = Raised \<and>
        (st' = st \<or>
         (\<exists>info. ji = Some info \<and>
            (dict_get info ''title'' = None \<or> dict_get info ''company'' = None))))"
  by (auto simp: save_job_info_def save_jobs_def Let_def split: option.splits if_splits bool.splits)

lemma save_extracted:
  assumes "save_job_info st (extract_job_info_from_content e c t s) = (out, st')"
  shows "if out = Added
         then \<exists>info. extract_job_info_from_content e c t s = Some info \<and>
                is_duplicate (jobs st) info = Some False \<and>
                st' = \<lparr>jobs = jobs st @ [info], disk = jobs st @ [info]\<rparr>
         else st' = st"
  using save_job_info_cases [OF assms] extract_job_info_keys [of e c t s]
  by (auto split: if_splits)

lemma add_job_from_text_frame:
  "add_job_from_text e st x = (out, st') \<Longrightarrow>
     (if out = Added
      then \<exists>info. extract_job_info_from_content e x ''text'' ''Direct Input'' = Some info \<and>
             is_duplicate (jobs st) info = Some False \<and>
             st' = \<lparr>jobs = jobs st @ [info], disk = jobs st @ [info]\<rparr>
      else st' = st)"
  unfolding add_job_from_text_def
  by (auto split: if_splits dest!: save_extracted)

lemma add_job_from_url_frame:
  "add_job_from_url e st x = (out, st') \<Longrightarrow>
     (if out = Added
      then \<exists>content info. extract_from_url e x = Some content \<and>
             extract_job_info_from_content e content ''url'' x = Some info \<and>
             is_duplicate (jobs st) info = Some False \<and>
             st' = \<lparr>jobs = jobs st @ [info], disk = jobs st @ [info]\<rparr>
      else st' = st)"
  unfolding add_job_from_url_def
  by (auto split: option.splits if_splits dest!: save_extracted)

lemma add_job_from_pdf_frame:
  "add_job_from_pdf e st x = (out, st') \<Longrightarrow>
     (if out = Added
      then \<exists>content info. extract_from_pdf e x = Some content \<and>
             extract_job_info_from_content e content ''pdf'' x = Some info \<and>
             is_duplicate (jobs st) info = Some False \<and>
             st' = \<lparr>jobs = jobs st @ [info], disk = jobs st @ [info]\<rparr>
      else st' = st)"
  unfolding add_job_from_pdf_def
  by (auto split: option.splits if_splits dest!: save_extracted)

lemma add_job_from_text_file_frame:
  "add_job_from_text_file e st x = (out, st') \<Longrightarrow>
     (if out = Added
      then \<exists>content info. read_text e x = Some content \<and>
             extract_job_info_from_content e content ''text_file'' x = Some info \<and>
             is_duplicate (jobs st) info = Some False \<and>
             st' = \<lparr>jobs = jobs st @ [info], disk = jobs st @ [info]\<rparr>
      else st' = st)"
  unfolding add_job_from_text_file_def
  by (auto split: option.splits if_splits prod.splits outcome.splits dest!: save_extracted)

lemma add_job_from_input_routes:
  "add_job_from_input e st x \<in>
     {add_job_from_url e st (strip x), add_job_from_pdf e st (strip x),
      add_job_from_text_file e st (strip x), add_job_from_text e st (strip x)}"
  by (simp add: add_job_from_input_def Let_def)

lemma offline_extraction: "try_ollama_extraction offline c = (None, call_order)"
  by (simp add: try_ollama_extraction_def call_order_def max_retries_def models_def
        call_model_def offline_def upt_rec)

lemma offline_today: "today offline = ''01/15/2025''"
  by (simp add: offline_def)

lemma example1_record:
  "extract_job_info_from_content offline example1 ''text'' ''Direct Input'' = Some backend_record"
  by (simp add: extract_job_info_from_content_def extract_with_ollama_def offline_extraction
        example1_fallback example1_length provenance_def offline_today backend_record_def)

lemma analyst_no_duplicate: "is_duplicate [analyst] backend_record = Some False"
  by code_simp

lemma backend_duplicate: "is_duplicate [analyst, backend_record] backend_record = Some True"
  by code_simp

lemma backend_record_keys:
  "backend_record \<noteq> []" "dict_get backend_record ''title'' \<noteq> None"
  "dict_get backend_record ''company'' \<noteq> None"
  by (simp_all add: backend_record_def dict_get_def)

lemma example1_added:
  "add_job_from_text offline analyst_tracker example1 =
     (Added, \<lparr>jobs = [analyst, backend_record], disk = [analyst, backend_record]\<rparr>)"
  using backend_record_keys
  by (simp add: add_job_from_text_def example1_length example1_record save_job_info_def
        analyst_tracker_def save_jobs_def analyst_no_duplicate Let_def del: is_duplicate.simps)

lemma example1_repeated:
  "add_job_from_text offline \<lparr>jobs = [analyst, backend_record], disk = [analyst, backend_record]\<rparr>
       example1 =
     (DuplicateJob, \<lparr>jobs = [analyst, backend_record], disk = [analyst, backend_record]\<rparr>)"
  using backend_record_keys
  by (simp add: add_job_from_text_def example1_length example1_record save_job_info_def
        backend_duplicate Let_def del: is_duplicate.simps)

text \<open>
  C9. An accepted submission appends exactly one record, the record extracted from that
  submission, at the end of the stored sequence and writes the new sequence to disk; the
  records stored before keep their places. Every other outcome leaves the tracker as it
  was, in memory and on disk. This holds for \<open>save_job_info\<close> on whatever it is given and
  returns from (the accepted record is the one handed in, it is not empty and no stored job
  matches it), and for each entry point, where the accepted record is the one that
  \<open>extract_job_info_from_content\<close> makes of the acquired content; \<open>add_job_from_input\<close> is
  one of the four others on the stripped input. The witness starts from a tracker that
  already holds a record: the first example is appended behind it, and submitting it again
  is a duplicate that changes nothing.
\<close>

theorem accepted_appends_one:
  "(save_job_info st job_info = (out, st') \<and> out \<noteq> Raised \<longrightarrow>
      (if out = Added
       then \<exists>info. job_info = Some info \<and> info \<noteq> [] \<and>
              is_duplicate (jobs st) info = Some False \<and>
              st' = \<lparr>jobs = jobs st @ [info], disk = jobs st @ [info]\<rparr>
       else st' = st)) \<and>
   (add_job_from_text e st x = (out, st') \<longrightarrow>
      (if out = Added
       then \<exists>info. extract_job_info_from_content e x ''text'' ''Direct Input'' = Some info \<and>
              is_duplicate (jobs st) info = Some False \<and>
              st' = \<lparr>jobs = jobs st @ [info], disk = jobs st @ [info]\<rparr>
       else st' = st)) \<and>
   (add_job_from_url e st x = (out, st') \<longrightarrow>
      (if out = Added
       then \<exists>content info. extract_from_url e x = Some content \<and>
              extract_job_info_from_content e content ''url'' x = Some info \<and>
              is_duplicate (jobs st) info = Some False \<and>
              st' = \<lparr>jobs = jobs st @ [info], disk = jobs st @ [info]\<rparr>
       else st' = st)) \<and>
   (add_job_from_pdf e st x = (out, st') \<longrightarrow>
      (if out = Added
       then \<exists>content info. extract_from_pdf e x = Some content \<and>
              extract_job_info_from_content e content ''pdf'' x = Some info \<and>
              is_duplicate (jobs st) info = Some False \<and>
              st' = \<lparr>jobs = jobs st @ [info], disk = jobs st @ [info]\<rparr>
       else st' = st)) \<and>
   (add_job_from_text_file e st x = (out, st') \<longrightarrow>
      (if out = Added
       then \<exists>content info. read_text e x = Some content \<and>
              extract_job_info_from_content e content ''text_file'' x = Some info \<and>
              is_duplicate (jobs st) info = Some False \<and>
              st' = \<lparr>jobs = jobs st @ [info], disk = jobs st @ [info]\<rparr>
       else st' = st)) \<and>
   add_job_from_input e st x \<in>
     {add_job_from_url e st (strip x), add_job_from_pdf e st (strip x),
      add_job_from_text_file e st (strip x), add_job_from_text e st (strip x)}"
  apply (intro conjI impI)
  subgoal using save_job_info_cases [of st job_info out st'] by (auto split: if_splits)
  subgoal by (rule add_job_from_text_frame)
  subgoal by (rule add_job_from_url_frame)
  subgoal by (rule add_job_from_pdf_frame)
  subgoal by (rule add_job_from_text_file_frame)
  subgoal by (rule add_job_from_input_routes)
  done

theorem accepted_appends_one_witness:
  "add_job_from_text offline analyst_tracker example1 =
     (Added, \<lparr>jobs = [analyst, backend_record], disk = [analyst, backend_record]\<rparr>) \<and>
   extract_job_info_from_content offline example1 ''text'' ''Direct Input'' = Some backend_record \<and>
   is_duplicate (jobs analyst_tracker) backend_record = Some False \<and>
   \<lparr>jobs = [analyst, backend_record], disk = [analyst, backend_record]\<rparr> =
     \<lparr>jobs = jobs analyst_tracker @ [backend_record], disk = jobs analyst_tracker @ [backend_record]\<rparr> \<and>
   add_job_from_text offline \<lparr>jobs = [analyst, backend_record], disk = [analyst, backend_record]\<rparr>
       example1 =
     (DuplicateJob, \<lparr>jobs = [analyst, backend_record], disk = [analyst, backend_record]\<rparr>)"
  using accepted_appends_one [of analyst_tracker None Added
      "\<lparr>jobs = [analyst, backend_record], disk = [analyst, backend_record]\<rparr>"
      offline example1]
    accepted_appends_one [of "\<lparr>jobs = [analyst, backend_record], disk = [analyst, backend_record]\<rparr>"
      None DuplicateJob
      "\<lparr>jobs = [analyst, backend_record], disk = [analyst, backend_record]\<rparr>"
      offline example1]
  by (simp add: example1_added example1_repeated example1_record)

subsection \<open>The order of the calls to the inference service\<close>

lemma first_success_append:
  "first_success f (xs @ ys) =
     (case first_success f xs of
        (Some d, log) \<Rightarrow> (Some d, log)
      | (None, log) \<Rightarrow> (let (r, log') = first_success f ys in (r, log @ log')))"
  by (induction xs) (auto split: option.splits prod.splits)

lemma try_models_scan:
  "try_models e a p ms = first_success (\<lambda>(a, m). call_model e a p m) (map (Pair a) ms)"
  by (induction ms) (auto split: option.splits prod.splits)

lemma try_attempts_scan:
  "try_attempts e c as =
     first_success (\<lambda>(a, m). call_model e a (make_prompt c) m)
       (concat (map (\<lambda>attempt. map (Pair attempt) models) as))"
  by (induction as) (auto simp: first_success_append try_models_scan split: option.splits prod.splits)

lemma try_ollama_extraction_scan:
  "try_ollama_extraction e c = first_success (\<lambda>(a, m). call_model e a (make_prompt c) m) call_order"
  by (simp add: try_ollama_extraction_def call_order_def try_attempts_scan)

lemma first_success_hit:
  "list_all (\<lambda>x. f x = None) pre \<Longrightarrow> f x = Some d \<Longrightarrow>
     first_success f (pre @ x # rest) = (Some d, pre @ [x])"
  by (induction pre) auto

lemma first_success_miss:
  "list_all (\<lambda>x. f x = None) xs \<Longrightarrow> first_success f xs = (None, xs)"
  by (induction xs) auto

lemma call_order_models:
  "call_order =
     map (Pair 0) [''phi3:mini'', ''llama3.2'', ''llama3.1'', ''llama3'', ''llama2''] @
     map (Pair 1) [''phi3:mini'', ''llama3.2'', ''llama3.1'', ''llama3'', ''llama2'']"
  by (simp add: call_order_def models_def max_retries_def upt_rec)

lemma calls_in_order:
  "(call_order = pre @ (a, m) # rest \<and>
    list_all (\<lambda>(a', m'). call_model e a' (make_prompt c) m' = None) pre \<and>
    call_model e a (make_prompt c) m = Some d
      \<longrightarrow> try_ollama_extraction e c = (Some d, pre @ [(a, m)])) \<and>
   (list_all (\<lambda>(a', m'). call_model e a' (make_prompt c) m' = None) call_order
      \<longrightarrow> try_ollama_extraction e c = (None, call_order))"
proof (intro conjI impI)
  assume h: "call_order = pre @ (a, m) # rest \<and>
    list_all (\<lambda>(a', m'). call_model e a' (make_prompt c) m' = None) pre \<and>
    call_model e a (make_prompt c) m = Some d"
  then have "first_success (\<lambda>(a, m). call_model e a (make_prompt c) m) (pre @ (a, m) # rest)
      = (Some d, pre @ [(a, m)])"
    by (intro first_success_hit) (auto simp: case_prod_unfold)
  with h show "try_ollama_extraction e c = (Some d, pre @ [(a, m)])"
    by (simp add: try_ollama_extraction_scan)
next
  assume "list_all (\<lambda>(a', m'). call_model e a' (make_prompt c) m' = None) call_order"
  then show "try_ollama_extraction e c = (None, call_order)"
    unfolding try_ollama_extraction_scan
    by (intro first_success_miss) (auto simp: case_prod_unfold)
qed

lemma first_model_answers:
  "call_model e 0 (make_prompt c) ''phi3:mini'' = Some d \<Longrightarrow>
     try_ollama_extraction e c = (Some d, [(0, ''phi3:mini'')])"
  using calls_in_order [of "[]" 0 "''phi3:mini''" _ e c d] call_order_models by simp


lemma call_model_Some:
  "call_model e a p m = Some d \<longleftrightarrow>
     (\<exists>result text.
        post e a m p = Response 200 (Some (JObj result)) \<and>
        get_default result ''response'' (JStr []) = JStr text \<and>
        parse_ollama_response (loads e) (strip text) = Some d)"
proof -
  have "parse_ollama_response l t = Some d \<Longrightarrow> d \<noteq> []" for l t
    using parse_keys [of l t d] by (auto simp: dict_get_def)
  then show ?thesis
    by (auto simp: call_model_def split: reply.splits option.splits json.splits if_splits)
qed

lemma null_description_calls: "call_model null_description a p m = None"
  by code_simp

text \<open>
  C8 (the code departs from the claim). The first model here answers with status 200 and a
  response that is a JSON object, \<^verbatim>\<open>{"title": "Nurse", "description": null}\<close>, which
  \<^verbatim>\<open>json.loads\<close> parses. The claim has this answer end both loops. In the code the
  formatting slices the description, \<^verbatim>\<open>None[:500]\<close> raises, the broad \<^verbatim>\<open>except\<close>
  turns that into no result, and the loops go on: all ten calls of \<open>call_order\<close> are made,
  the client returns nothing and the orchestrator falls back to the heuristic extractor.
  The order of the calls itself is as the claim says (lemma \<open>calls_in_order\<close>, where a call
  succeeds as lemma \<open>call_model_Some\<close> says).
\<close>

theorem null_description_exhausts_calls:
  \<open>post null_description 0 ''phi3:mini'' (make_prompt example1) =
      Response 200 (Some (JObj [(''response'', JStr ''{"title": "Nurse", "description": null}'')])) \<and>
    loads null_description ''{"title": "Nurse", "description": null}'' =
      Some (JObj [(''title'', JStr ''Nurse''), (''description'', JNull)]) \<and>
    parse_ollama_response (loads null_description) ''{"title": "Nurse", "description": null}'' = None \<and>
    try_ollama_extraction null_description example1 = (None, call_order) \<and>
    extract_with_ollama null_description example1 ''text'' ''Direct Input'' =
      fallback_extraction example1 ''Direct Input''\<close>
proof -
  have t: "try_ollama_extraction null_description example1 = (None, call_order)"
    unfolding try_ollama_extraction_scan
    by (intro first_success_miss) (simp add: list_all_iff null_description_calls case_prod_unfold)
  have p: \<open>parse_ollama_response (loads null_description)
      ''{"title": "Nurse", "description": null}'' = None\<close>
    by code_simp
  show ?thesis
    using t p by (simp add: null_description_def offline_def extract_with_ollama_def)
qed

subsection \<open>Duplicates\<close>

lemma is_duplicate_key:
  "list_all (\<lambda>e. identity_key e \<noteq> None) js \<Longrightarrow> identity_key j = Some k \<Longrightarrow>
     is_duplicate js j = Some (list_ex (\<lambda>e. identity_key e = Some k) js)"
  by (induction js) (auto simp: identity_key_def split: option.splits)

lemma null_title_call:
  "call_model null_title a p m =
     Some [(''title'', JNull), (''company'', JStr ''Acme Corp''),
           (''description'', JStr ''No description found''), (''other_info'', JObj [])]"
  by code_simp

lemma null_title_extracted:
  "extract_job_info_from_content null_title example1 ''text'' ''Direct Input'' =
     Some null_title_record"
proof -
  have d: "today null_title = ''01/15/2025''" by (simp add: null_title_def offline_def)
  show ?thesis
    by (simp add: extract_job_info_from_content_def extract_with_ollama_def example1_length
          first_model_answers [OF null_title_call] provenance_def d null_title_record_def
          with_provenance_def)
qed

lemma null_title_added:
  "add_job_from_text null_title empty_tracker example1 =
     (Added, \<lparr>jobs = [null_title_record], disk = [null_title_record]\<rparr>)"
proof -
  have "null_title_record \<noteq> []" "dict_get null_title_record ''title'' \<noteq> None"
    "dict_get null_title_record ''company'' \<noteq> None"
    by (simp_all add: null_title_record_def with_provenance_def dict_get_def)
  then show ?thesis
    by (simp add: add_job_from_text_def example1_length null_title_extracted save_job_info_def
          empty_tracker_def save_jobs_def Let_def)
qed

lemma null_title_compare: "is_duplicate [null_title_record] backend_record = None"
  by code_simp

lemma same_key_stored_once:
  assumes "list_all (\<lambda>e. identity_key e \<noteq> None) (jobs st)"
    and "identity_key a = Some k" and "identity_key b = Some k"
    and "dict_get a ''title'' \<noteq> None" and "dict_get a ''company'' \<noteq> None" and "b \<noteq> []"
  shows "if list_ex (\<lambda>e. identity_key e = Some k) (jobs st)
         then save_job_info st (Some a) = (DuplicateJob, st)
         else save_job_info st (Some a) = (Added, \<lparr>jobs = jobs st @ [a], disk = jobs st @ [a]\<rparr>) \<and>
              save_job_info \<lparr>jobs = jobs st @ [a], disk = jobs st @ [a]\<rparr> (Some b)
                = (DuplicateJob, \<lparr>jobs = jobs st @ [a], disk = jobs st @ [a]\<rparr>) \<and>
              length (filter (\<lambda>e. identity_key e = Some k) (jobs st @ [a])) = 1"
proof -
  have a: "a \<noteq> []" using assms(4) by (auto simp: dict_get_def)
  have d1: "is_duplicate (jobs st) a = Some (list_ex (\<lambda>e. identity_key e = Some k) (jobs st))"
    using assms(1,2) by (rule is_duplicate_key)
  have "list_all (\<lambda>e. identity_key e \<noteq> None) (jobs st @ [a])"
    using assms(1,2) by simp
  then have d2: "is_duplicate (jobs st @ [a]) b = Some True"
    using is_duplicate_key [OF _ assms(3)] assms(2) by simp
  show ?thesis
  proof (cases "list_ex (\<lambda>e. identity_key e = Some k) (jobs st)")
    case True
    with d1 a show ?thesis by (simp add: save_job_info_def)
  next
    case False
    then have "filter (\<lambda>e. identity_key e = Some k) (jobs st) = []"
      by (auto simp: list_ex_iff filter_empty_conv)
    with False d1 d2 a assms show ?thesis
      by (auto simp: save_job_info_def save_jobs_def Let_def)
  qed
qed

lemma case_only_difference:
  "save_job_info empty_tracker (Some backend_upper)
     = (Added, \<lparr>jobs = [backend_upper], disk = [backend_upper]\<rparr>) \<and>
   save_job_info \<lparr>jobs = [backend_upper], disk = [backend_upper]\<rparr> (Some backend_lower)
     = (DuplicateJob, \<lparr>jobs = [backend_upper], disk = [backend_upper]\<rparr>)"
proof -
  have k1: "identity_key backend_upper = Some (''backend engineer'', ''acme corp'')"
    by code_simp
  have k2: "identity_key backend_lower = Some (''backend engineer'', ''acme corp'')"
    by code_simp
  have h: "list_all (\<lambda>e. identity_key e \<noteq> None) (jobs empty_tracker)"
    by (simp add: empty_tracker_def)
  have t: "dict_get backend_upper ''title'' \<noteq> None" "dict_get backend_upper ''company'' \<noteq> None"
    "backend_lower \<noteq> []"
    by (simp_all add: backend_upper_def backend_lower_def dict_get_def)
  from same_key_stored_once [OF h k1 k2 t] show ?thesis
    by (simp add: empty_tracker_def)
qed

text \<open>
  C2 (the code departs from the claim). On a store whose titles and companies are texts the
  deduplicator does what the claim says (lemmas \<open>same_key_stored_once\<close> and
  \<open>case_only_difference\<close>). But the tracker itself stores records whose title is no text:
  a model that answers \<^verbatim>\<open>{"title": null, "company": "Acme Corp"}\<close> gets that record
  accepted into the empty store. From then on the comparison in \<open>save_job_info\<close> raises
  (\<^verbatim>\<open>None.lower()\<close>) at that record: the draft of the first example, which matches no
  stored record, is not appended, and submitting it again is not reported as a duplicate;
  both submissions end in an exception and the store never holds a record of that key.
\<close>

theorem null_title_breaks_dedup:
  "add_job_from_text null_title empty_tracker example1 =
     (Added, \<lparr>jobs = [null_title_record], disk = [null_title_record]\<rparr>) \<and>
   extract_job_info_from_content offline example1 ''text'' ''Direct Input'' = Some backend_record \<and>
   save_job_info \<lparr>jobs = [null_title_record], disk = [null_title_record]\<rparr> (Some backend_record) =
     (Raised, \<lparr>jobs = [null_title_record], disk = [null_title_record]\<rparr>) \<and>
   add_job_from_text offline \<lparr>jobs = [null_title_record], disk = [null_title_record]\<rparr> example1 =
     (Raised, \<lparr>jobs = [null_title_record], disk = [null_title_record]\<rparr>)"
proof -
  have s: "save_job_info \<lparr>jobs = [null_title_record], disk = [null_title_record]\<rparr>
      (Some backend_record) = (Raised, \<lparr>jobs = [null_title_record], disk = [null_title_record]\<rparr>)"
    using backend_record_keys
    by (simp add: save_job_info_def null_title_compare del: is_duplicate.simps)
  have "add_job_from_text offline \<lparr>jobs = [null_title_record], disk = [null_title_record]\<rparr>
      example1 = (Raised, \<lparr>jobs = [null_title_record], disk = [null_title_record]\<rparr>)"
    by (simp add: add_job_from_text_def example1_length example1_record s)
  with s null_title_added example1_record show ?thesis by simp
qed

subsection \<open>Acquisition from a URL, a PDF and a text file\<close>

lemma not_isspace_http:
  "\<not> isspace (CHR ''h'')" "\<not> isspace (CHR ''t'')" "\<not> isspace (CHR ''p'')"
  by (code_simp, code_simp, code_simp)

lemma strip_http: "startswith s ''http'' \<Longrightarrow> startswith (strip s) ''http''"
proof -
  assume "startswith s ''http''"
  then obtain r where s: "s = ''http'' @ r"
    by (metis append_take_drop_id startswith_def)
  have 1: "dropWhile isspace s = s" unfolding s by (simp add: not_isspace_http)
  have "\<exists>xs. dropWhile isspace (rev r @ ''ptth'') = xs @ ''ptth''"
  proof (cases "\<forall>x \<in> set (rev r). isspace x")
    case True
    then have "dropWhile isspace (rev r @ ''ptth'') = dropWhile isspace ''ptth''"
      by (intro dropWhile_append2) auto
    then have "dropWhile isspace (rev r @ ''ptth'') = [] @ ''ptth''"
      by (simp add: not_isspace_http)
    then show ?thesis by blast
  next
    case False
    then obtain x where "x \<in> set (rev r)" "\<not> isspace x" by blast
    then have "dropWhile isspace (rev r @ ''ptth'') = dropWhile isspace (rev r) @ ''ptth''"
      by (rule dropWhile_append1)
    then show ?thesis by blast
  qed
  then obtain xs where "dropWhile isspace (rev s) = xs @ ''ptth''"
    unfolding s by auto
  then have "strip s = ''http'' @ rev xs"
    unfolding strip_def 1 by simp
  then show ?thesis by (simp add: startswith_def)
qed

lemma save_never_insufficient: "fst (save_job_info st ji) \<noteq> InsufficientContent"
  by (auto simp: save_job_info_def Let_def split: option.splits bool.splits)

lemma extraction_total: "\<exists>info. extract_job_info_from_content e c t s = Some info \<and> info \<noteq> []"
proof -
  define c' where "c' = (if length c > 8000 then take 8000 c else c)"
  have "extract_with_ollama e c' t s \<noteq> []"
    using extract_with_ollama_keys [of e c' t s] by (auto simp: dict_get_def)
  then have "extract_job_info_from_content e c t s =
      Some (dict_update (extract_with_ollama e c' t s) (provenance e t s))"
    by (simp add: extract_job_info_from_content_def c'_def Let_def)
  then show ?thesis using extract_job_info_keys by blast
qed

lemma url_page:
  "http_get e url = Response status text \<Longrightarrow>
     extract_from_url e url = Some (clean_html text) \<and>
     add_job_from_url e st url =
       (if clean_html text = [] then (EmptyContent, st)
        else save_job_info st (extract_job_info_from_content e (clean_html text) ''url'' url))"
  by (simp add: extract_from_url_def add_job_from_url_def)

lemma url_error:
  "http_get e url \<in> {ConnectionError, Timeout, OtherError} \<Longrightarrow>
     extract_from_url e url = None \<and> add_job_from_url e st url = (FetchError, st)"
  by (auto simp: extract_from_url_def add_job_from_url_def)

lemma short_page_clean: "clean_html ''<p>Hiring   now</p>'' = ''Hiring now''"
  by code_simp

lemma short_page_fallback:
  "fallback_extraction ''Hiring now'' src =
     [(''title'', JStr ''Unknown Title''), (''company'', JStr ''Unknown Company''),
      (''description'', JStr ''Hiring now''), (''other_info'', JObj [])]"
  by code_simp

lemma offline_post_extract:
  "post e = post offline \<Longrightarrow> today e = today offline \<Longrightarrow> length c \<le> 8000 \<Longrightarrow>
     extract_job_info_from_content e c t s =
       Some (dict_update (fallback_extraction c s)
              [(''source'', JStr s), (''source_type'', JStr t),
               (''date_added'', JStr ''01/15/2025''), (''status'', JStr ''Applied''),
               (''last_update'', JStr ''01/15/2025'')])"
proof -
  assume p: "post e = post offline" and d: "today e = today offline" and l: "length c \<le> 8000"
  have "call_model e a q m = None" for a q m
    by (simp add: call_model_def p offline_def)
  then have "try_ollama_extraction e c = (None, call_order)"
    using calls_in_order [of _ _ _ _ e c] by (simp add: list_all_iff case_prod_unfold)
  moreover have "fallback_extraction c s \<noteq> []"
    using fallback_keys [of c s] by (auto simp: dict_get_def)
  ultimately show ?thesis using l
    by (simp add: extract_job_info_from_content_def extract_with_ollama_def provenance_def d
          offline_today)
qed

lemma short_page_extracted:
  "extract_job_info_from_content short_page ''Hiring now'' ''url'' job_url =
     Some short_page_record"
  by (subst offline_post_extract)
     (simp_all add: short_page_def short_page_fallback short_page_record_def
        with_provenance_def)

lemma short_page_added:
  "add_job_from_url short_page empty_tracker job_url =
     (Added, \<lparr>jobs = [short_page_record], disk = [short_page_record]\<rparr>)"
proof -
  have g: "http_get short_page job_url = Response 200 ''<p>Hiring   now</p>''"
    by (simp add: short_page_def)
  note x = short_page_extracted
  have "short_page_record \<noteq> []" "dict_get short_page_record ''title'' \<noteq> None"
    "dict_get short_page_record ''company'' \<noteq> None"
    by (simp_all add: short_page_record_def with_provenance_def dict_get_def)
  then show ?thesis
    using url_page [OF g, of empty_tracker]
    by (simp add: short_page_clean x save_job_info_def empty_tracker_def save_jobs_def Let_def)
qed

lemma job_url_http: "startswith job_url ''http''" "strip job_url = job_url"
  by (code_simp, code_simp)

text \<open>
  C10 (amended). The check for 50 characters is made on the literal text only. An input that
  begins with \<^verbatim>\<open>http\<close> goes to \<open>add_job_from_url\<close> whatever its length. Content that
  is not empty, from a URL or a PDF, and any content of a text file, is handed to extraction,
  which returns a record, and that record to \<open>save_job_info\<close>, however short the content
  is; none of the three paths ends in \<open>InsufficientContent\<close>. Empty content from a URL or
  a PDF is turned away before extraction, with the outcome \<open>EmptyContent\<close>.
\<close>

theorem acquired_content_not_length_checked:
  "(startswith user_input ''http'' \<longrightarrow>
      add_job_from_input e st user_input = add_job_from_url e st (strip user_input)) \<and>
   (extract_from_url e url = Some content \<and> content \<noteq> [] \<longrightarrow>
      (\<exists>info. extract_job_info_from_content e content ''url'' url = Some info \<and>
         add_job_from_url e st url = save_job_info st (Some info))) \<and>
   (extract_from_pdf e path = Some content \<and> content \<noteq> [] \<longrightarrow>
      (\<exists>info. extract_job_info_from_content e content ''pdf'' path = Some info \<and>
         add_job_from_pdf e st path = save_job_info st (Some info))) \<and>
   (read_text e path = Some content \<longrightarrow>
      (\<exists>info. extract_job_info_from_content e content ''text_file'' path = Some info \<and>
         add_job_from_text_file e st path =
           (case save_job_info st (Some info) of
              (Raised, st') \<Rightarrow> (ExtractError, st')
            | r \<Rightarrow> r))) \<and>
   (extract_from_url e url = Some [] \<longrightarrow> add_job_from_url e st url = (EmptyContent, st)) \<and>
   (extract_from_pdf e path = Some [] \<longrightarrow> add_job_from_pdf e st path = (EmptyContent, st)) \<and>
   fst (add_job_from_url e st url) \<noteq> InsufficientContent \<and>
   fst (add_job_from_pdf e st path) \<noteq> InsufficientContent \<and>
   fst (add_job_from_text_file e st path) \<noteq> InsufficientContent \<and>
   (length text_content < 50 \<longrightarrow>
      add_job_from_text e st text_content = (InsufficientContent, st))"
  apply (intro conjI impI)
  subgoal by (simp add: add_job_from_input_def strip_http)
  subgoal using extraction_total [of e content "''url''" url]
    by (auto simp: add_job_from_url_def)
  subgoal using extraction_total [of e content "''pdf''" path]
    by (auto simp: add_job_from_pdf_def)
  subgoal using extraction_total [of e content "''text_file''" path]
    by (auto simp: add_job_from_text_file_def)
  subgoal by (simp add: add_job_from_url_def)
  subgoal by (simp add: add_job_from_pdf_def)
  subgoal using save_never_insufficient
    by (auto simp: add_job_from_url_def split: option.splits)
  subgoal using save_never_insufficient
    by (auto simp: add_job_from_pdf_def split: option.splits)
  subgoal using save_never_insufficient [of st]
    by (auto simp: add_job_from_text_file_def split: option.splits prod.splits outcome.splits)
       (metis fst_conv)
  subgoal by (simp add: add_job_from_text_def)
  done

lemma short_page_content: "extract_from_url short_page job_url = Some ''Hiring now''"
  by (simp add: extract_from_url_def short_page_def short_page_clean)

theorem acquired_content_not_length_checked_witness:
  "startswith job_url ''http'' \<and>
   add_job_from_input short_page empty_tracker job_url =
     add_job_from_url short_page empty_tracker job_url \<and>
   extract_from_url short_page job_url = Some ''Hiring now'' \<and>
   length ''Hiring now'' < 50 \<and>
   extract_job_info_from_content short_page ''Hiring now'' ''url'' job_url = Some short_page_record \<and>
   add_job_from_url short_page empty_tracker job_url =
     (Added, \<lparr>jobs = [short_page_record], disk = [short_page_record]\<rparr>)"
  using acquired_content_not_length_checked [where user_input = job_url and e = short_page
      and st = empty_tracker and url = job_url and content = "''Hiring now''"
      and path = job_url and text_content = "[]"]
  by (simp add: job_url_http short_page_content short_page_added short_page_extracted)

lemma empty_page_clean: "clean_html ''<html><body></body></html>'' = []"
  by code_simp

lemma empty_fallback:
  "fallback_extraction [] src =
     [(''title'', JStr ''Unknown Title''), (''company'', JStr ''Unknown Company''),
      (''description'', JStr ''No description found''), (''other_info'', JObj [])]"
  by code_simp

text \<open>
  The claim as it was stated fails at the empty content: a page without text is acquired
  from the URL, it is shorter than 50 characters, and it does not proceed to extraction,
  which would have made a record of it.
\<close>

theorem empty_page_not_extracted:
  "extract_from_url empty_page job_url = Some [] \<and>
   length ([] :: string) < 50 \<and>
   add_job_from_url empty_page empty_tracker job_url = (EmptyContent, empty_tracker) \<and>
   save_job_info empty_tracker (extract_job_info_from_content empty_page [] ''url'' job_url) =
     (Added, \<lparr>jobs = [empty_content_record], disk = [empty_content_record]\<rparr>)"
proof -
  have g: "http_get empty_page job_url = Response 200 ''<html><body></body></html>''"
    by (simp add: empty_page_def)
  have x: "extract_job_info_from_content empty_page [] ''url'' job_url = Some empty_content_record"
    by (subst offline_post_extract)
       (simp_all add: empty_page_def empty_fallback empty_content_record_def with_provenance_def)
  have k: "empty_content_record \<noteq> []" "dict_get empty_content_record ''title'' \<noteq> None"
    "dict_get empty_content_record ''company'' \<noteq> None"
    by (simp_all add: empty_content_record_def with_provenance_def dict_get_def)
  show ?thesis
    using url_page [OF g, of empty_tracker] k
    by (simp add: empty_page_clean x save_job_info_def empty_tracker_def save_jobs_def Let_def)
qed

text \<open>
  C6 (amended). When the HTTP request raises (a network error, a timeout or another
  exception), \<open>extract_from_url\<close> returns nothing and the submission ends with
  \<open>FetchError\<close>, nothing extracted and the tracker as it was. When the request returns a
  response, its status is not looked at: whatever the status, the body is cleaned and,
  unless the cleaned text is empty, extraction and \<open>save_job_info\<close> run on it.
\<close>

theorem fetch_failure_aborts:
  "(http_get e url \<in> {ConnectionError, Timeout, OtherError} \<longrightarrow>
      extract_from_url e url = None \<and> add_job_from_url e st url = (FetchError, st)) \<and>
   (http_get e url = Response status body \<longrightarrow>
      extract_from_url e url = Some (clean_html body) \<and>
      add_job_from_url e st url =
        (if clean_html body = [] then (EmptyContent, st)
         else save_job_info st (extract_job_info_from_content e (clean_html body) ''url'' url)))"
  using url_error [of e url st] url_page [of e url status body st] by blast

theorem fetch_failure_aborts_witness:
  "http_get offline job_url \<in> {ConnectionError, Timeout, OtherError} \<and>
   extract_from_url offline job_url = None \<and>
   add_job_from_url offline analyst_tracker job_url = (FetchError, analyst_tracker)"
  using fetch_failure_aborts [of offline job_url analyst_tracker]
  by (simp add: offline_def)

lemma not_found_clean:
  "clean_html (''<html><head><title>404 Not Found</title></head>'' @
     ''<body><h1>Not Found</h1><p>The requested URL was not found.</p></body></html>'') =
   ''404 Not Found Not Found The requested URL was not found.''"
  by code_simp

lemma not_found_fallback:
  "fallback_extraction ''404 Not Found Not Found The requested URL was not found.'' src =
     [(''title'', JStr ''Unknown Title''), (''company'', JStr ''Unknown Company''),
      (''description'', JStr ''404 Not Found Not Found The requested URL was not found.''),
      (''other_info'', JObj [])]"
  by code_simp

text \<open>
  The claim as it was stated fails at a response with status 404: the text of the error
  page is extracted and stored as a job.
\<close>

theorem not_found_page_is_extracted:
  "http_get not_found job_url =
     Response 404 (''<html><head><title>404 Not Found</title></head>'' @
       ''<body><h1>Not Found</h1><p>The requested URL was not found.</p></body></html>'') \<and>
   extract_from_url not_found job_url =
     Some ''404 Not Found Not Found The requested URL was not found.'' \<and>
   add_job_from_url not_found empty_tracker job_url =
     (Added, \<lparr>jobs = [not_found_record], disk = [not_found_record]\<rparr>)"
proof -
  have g: "http_get not_found job_url =
     Response 404 (''<html><head><title>404 Not Found</title></head>'' @
       ''<body><h1>Not Found</h1><p>The requested URL was not found.</p></body></html>'')"
    by (simp add: not_found_def)
  have x: "extract_job_info_from_content not_found
      ''404 Not Found Not Found The requested URL was not found.'' ''url'' job_url =
      Some not_found_record"
    by (subst offline_post_extract)
       (simp_all add: not_found_def not_found_fallback not_found_record_def with_provenance_def)
  have k: "not_found_record \<noteq> []" "dict_get not_found_record ''title'' \<noteq> None"
    "dict_get not_found_record ''company'' \<noteq> None"
    by (simp_all add: not_found_record_def with_provenance_def dict_get_def)
  show ?thesis
    using url_page [OF g, of empty_tracker] k g
    by (simp add: not_found_clean x save_job_info_def empty_tracker_def save_jobs_def Let_def
          del: append.simps)
qed

subsection \<open>The heuristic extractor never raises\<close>

lemma rmatch_no_group:
  "no_group r \<Longrightarrow> (g', p', s') \<in> set (rmatch fl r (g, p, s)) \<Longrightarrow> g' = g"
proof (induction r arbitrary: g p s g' p' s')
  case (Seq a b)
  then show ?case by (fastforce)
next
  case (Alt a b)
  then show ?case by auto
next
  case (Opt a)
  then show ?case by auto
qed (auto split: option.splits list.splits if_splits)

lemma rmatch_sets_group:
  "sets_group r \<Longrightarrow> (g', p', s') \<in> set (rmatch fl r st) \<Longrightarrow> g' \<noteq> None"
proof (induction r arbitrary: st g' p' s')
  case (Seq a b)
  from Seq.prems(2) obtain g1 p1 s1 where
    1: "(g1, p1, s1) \<in> set (rmatch fl a st)" and 2: "(g', p', s') \<in> set (rmatch fl b (g1, p1, s1))"
    by auto
  show ?case
  proof (cases "sets_group b")
    case True
    with 2 Seq.IH(2) show ?thesis by blast
  next
    case False
    with Seq.prems(1) have a: "sets_group a" and b: "no_group b" by auto
    from a 1 Seq.IH(1) have "g1 \<noteq> None" by blast
    moreover from b 2 have "g' = g1" by (rule rmatch_no_group)
    ultimately show ?thesis by simp
  qed
next
  case (Alt a b)
  from Alt.prems have "sets_group a" "sets_group b"
    "(g', p', s') \<in> set (rmatch fl a st) \<or> (g', p', s') \<in> set (rmatch fl b st)"
    by auto
  with Alt.IH show ?case by blast
next
  case (Grp a)
  then show ?case by (cases st) auto
qed simp_all

lemma search_from_group1:
  "sets_group r \<Longrightarrow> search_from fl r p s = Some m \<Longrightarrow> group1 m \<noteq> None"
proof (induction s arbitrary: p)
  case Nil
  then show ?case
    by (auto split: list.splits dest!: rmatch_sets_group [where fl = fl and st = "(None, p, [])"]
        simp: list.set_intros)
next
  case (Cons c s)
  show ?case
  proof (cases "rmatch fl r (None, p, c # s)")
    case Nil
    with Cons show ?thesis by simp
  next
    case (Cons x xs)
    obtain g q t where x: "x = (g, q, t)" by (cases x)
    with Cons have "(g, q, t) \<in> set (rmatch fl r (None, p, c # s))" by simp
    with Cons.prems(1) have "g \<noteq> None" by (rule rmatch_sets_group)
    with Cons x \<open>search_from fl r p (c # s) = Some m\<close> show ?thesis by auto
  qed
qed

lemma scan_patterns_total:
  "list_all sets_group patterns \<Longrightarrow> scan_patterns patterns fl lo hi content \<noteq> None"
proof (induction patterns)
  case Nil
  then show ?case by simp
next
  case (Cons pattern patterns)
  then show ?case
    using search_from_group1 [of pattern fl None content]
    by (auto simp: re_search_def Let_def split: option.splits)
qed

lemma scan_patterns_length:
  "scan_patterns patterns fl lo hi content = Some (Some v) \<Longrightarrow> lo < length v \<and> length v < hi"
  by (induction patterns) (auto simp: Let_def split: option.splits if_splits)

lemma patterns_set_group:
  "list_all sets_group title_patterns" "list_all sets_group company_patterns"
  "list_all sets_group location_patterns"
  by (simp_all add: title_patterns_def company_patterns_def location_patterns_def)

lemma fallback_extraction_fields:
  "\<exists>t c other_info.
     fallback_extraction content source =
       [(''title'', JStr t), (''company'', JStr c),
        (''description'', JStr (describe content)), (''other_info'', JObj other_info)] \<and>
     t \<noteq> [] \<and> c \<noteq> [] \<and>
     t = (case scan_patterns title_patterns [IGNORECASE, MULTILINE] 5 200 content of
            Some (Some v) \<Rightarrow> v | _ \<Rightarrow> ''Unknown Title'') \<and>
     c = (case scan_patterns company_patterns [IGNORECASE] 1 100 content of
            Some (Some v) \<Rightarrow> v | _ \<Rightarrow> ''Unknown Company'')"
proof -
  obtain t where t: "scan_patterns title_patterns [IGNORECASE, MULTILINE] 5 200 content = Some t"
    using scan_patterns_total [OF patterns_set_group(1)] by blast
  obtain c where c: "scan_patterns company_patterns [IGNORECASE] 1 100 content = Some c"
    using scan_patterns_total [OF patterns_set_group(2)] by blast
  obtain l where l: "scan_patterns location_patterns [IGNORECASE] 2 100 content = Some l"
    using scan_patterns_total [OF patterns_set_group(3)] by blast
  have "(case t of None \<Rightarrow> ''Unknown Title'' | Some v \<Rightarrow> v) \<noteq> []"
    using scan_patterns_length [of title_patterns "[IGNORECASE, MULTILINE]" 5 200 content] t
    by (cases t) fastforce+
  moreover have "(case c of None \<Rightarrow> ''Unknown Company'' | Some v \<Rightarrow> v) \<noteq> []"
    using scan_patterns_length [of company_patterns "[IGNORECASE]" 1 100 content] c
    by (cases c) fastforce+
  ultimately show ?thesis
    using t c l
    by (cases t; cases c) (simp_all add: fallback_extraction_def fallback_try_def)
qed



















subsection \<open>Title and company\<close>

lemma heuristic_title_company:
  "\<exists>t c. dict_get (fallback_extraction content source) ''title'' = Some (JStr t) \<and> t \<noteq> [] \<and>
         dict_get (fallback_extraction content source) ''company'' = Some (JStr c) \<and> c \<noteq> []"
  using fallback_extraction_fields [of content source] by (auto simp: dict_get_def)

lemma missing_key_sentinel:
  "format_data (JObj d) = Some draft \<Longrightarrow>
     (map_of d ''title'' = None \<longrightarrow> dict_get draft ''title'' = Some (JStr ''Unknown Title'')) \<and>
     (map_of d ''company'' = None \<longrightarrow> dict_get draft ''company'' = Some (JStr ''Unknown Company''))"
  by (auto simp: format_data_def dict_get_def get_default_def split: option.splits)

lemma blank_title_call:
  "call_model blank_title a p m =
     Some [(''title'', JStr []), (''company'', JStr ''Acme Corp''),
           (''description'', JStr ''No description found''), (''other_info'', JObj [])]"
  by code_simp

lemma blank_title_extracted:
  "extract_job_info_from_content blank_title example1 ''text'' ''Direct Input'' =
     Some blank_title_record"
proof -
  have d: "today blank_title = ''01/15/2025''" by (simp add: blank_title_def offline_def)
  show ?thesis
    by (simp add: extract_job_info_from_content_def extract_with_ollama_def example1_length
          first_model_answers [OF blank_title_call] provenance_def d blank_title_record_def
          with_provenance_def)
qed

text \<open>
  C4 (the code departs from the claim). The heuristic extractor always returns a title and
  a company that are not empty (lemma \<open>heuristic_title_company\<close>), and on the LLM path a
  key that is missing becomes the sentinel (lemma \<open>missing_key_sentinel\<close>). But a key that is
  there is copied as it is: when the model answers
  \<^verbatim>\<open>{"title": "", "company": "Acme Corp"}\<close> the draft, and the record that is stored, have
  the empty title.
\<close>

theorem blank_title_kept:
  \<open>post blank_title 0 ''phi3:mini'' (make_prompt example1) =
     Response 200 (Some (JObj [(''response'', JStr ''{"title": "", "company": "Acme Corp"}'')])) \<and>
   loads blank_title ''{"title": "", "company": "Acme Corp"}'' =
     Some (JObj [(''title'', JStr []), (''company'', JStr ''Acme Corp'')]) \<and>
   extract_with_ollama blank_title example1 ''text'' ''Direct Input'' =
     [(''title'', JStr []), (''company'', JStr ''Acme Corp''),
      (''description'', JStr ''No description found''), (''other_info'', JObj [])] \<and>
   extract_job_info_from_content blank_title example1 ''text'' ''Direct Input'' =
     Some blank_title_record \<and>
   dict_get blank_title_record ''title'' = Some (JStr []) \<and>
   add_job_from_text blank_title empty_tracker example1 =
     (Added, \<lparr>jobs = [blank_title_record], disk = [blank_title_record]\<rparr>)\<close>
proof -
  have k: "blank_title_record \<noteq> []" "dict_get blank_title_record ''title'' = Some (JStr [])"
    "dict_get blank_title_record ''company'' \<noteq> None"
    by (simp_all add: blank_title_record_def with_provenance_def dict_get_def)
  have a: "add_job_from_text blank_title empty_tracker example1 =
     (Added, \<lparr>jobs = [blank_title_record], disk = [blank_title_record]\<rparr>)"
    using k
    by (simp add: add_job_from_text_def example1_length blank_title_extracted save_job_info_def
          empty_tracker_def save_jobs_def Let_def)
  have x: "extract_with_ollama blank_title example1 ''text'' ''Direct Input'' =
     [(''title'', JStr []), (''company'', JStr ''Acme Corp''),
      (''description'', JStr ''No description found''), (''other_info'', JObj [])]"
    by (simp add: extract_with_ollama_def first_model_answers [OF blank_title_call])
  show ?thesis
    using a x k blank_title_extracted by (simp add: blank_title_def offline_def)
qed

end
